theory Spec2Isabelle
  imports Main "HOL-Library.Word" "HOL-Library.Char_ord" "HOL-Library.List_Lexorder"
    "HOL-Library.Multiset" "HOL-Library.AList"
begin

unbundle bit_operations_syntax

section \<open>The tunnel subcommands of cloudflared\<close>

text \<open>
  A shallow embedding of \<^verbatim>\<open>cmd/cloudflared/tunnel/subcommands.go\<close>. Go strings are byte
  sequences, here \<open>string\<close>; a Go \<^verbatim>\<open>error\<close> is a value of the datatype \<open>error\<close>, and a
  function returning \<^verbatim>\<open>(T, error)\<close> returns \<open>error + T\<close>. Packages that are imported by the
  file but are not part of it (idna, urfave/cli, os, json, tunnelstore) are parameters of
  the functions that call them, or are modelled where a doc comment says so.
\<close>

subsection \<open>Errors and formatting\<close>

type_synonym byte = "8 word"

type_synonym uuid = "byte list"

type_synonym timestamp = int

datatype error =
    UsageError string
  | Errorf string
  | Wrap error string
  | LibError string

text \<open>\<^verbatim>\<open>%d\<close> of \<^verbatim>\<open>fmt.Sprintf\<close> on a non-negative integer: its decimal digits.\<close>

definition digitChar :: "nat \<Rightarrow> char" where
  "digitChar d = char_of (48 + d)"

fun showNat :: "nat \<Rightarrow> string" where
  "showNat n = (if n < 10 then [digitChar n] else showNat (n div 10) @ [digitChar (n mod 10)])"

declare showNat.simps [simp del]

text \<open>\<^verbatim>\<open>strings.Join\<close>.\<close>

fun strings_Join :: "string list \<Rightarrow> string \<Rightarrow> string" where
  "strings_Join [] sep = []"
| "strings_Join [x] sep = x"
| "strings_Join (x # y # zs) sep = x @ sep @ strings_Join (y # zs) sep"

text \<open>The errors of the specification, as the messages the code builds for them.\<close>

definition InvalidHostname :: "string \<Rightarrow> error" where
  "InvalidHostname h = Errorf (h @ '' is not a valid hostname'')"

definition InvalidLBName :: "string \<Rightarrow> error" where
  "InvalidLBName n = Errorf (n @ '' is not a valid load balancer name'')"

definition InvalidPoolName :: "string \<Rightarrow> error" where
  "InvalidPoolName n = Errorf (n @ '' is not a valid pool name'')"

definition UnknownFormat :: "string \<Rightarrow> error" where
  "UnknownFormat f = Errorf (''Unknown output format '' @ [CHR 0x27] @ f @ [CHR 0x27])"

definition ExpectedNArgs :: "nat \<Rightarrow> nat \<Rightarrow> error" where
  "ExpectedNArgs expected got =
     UsageError (''Expected '' @ showNat expected @ '' arguments, got '' @ showNat got)"

subsection \<open>Regular expressions: the fragment \<^verbatim>\<open>nameRegex\<close> is written in\<close>

text \<open>
  A regular expression of this fragment is a sequence of character classes, each taken
  once or under \<^verbatim>\<open>*\<close>, optionally anchored by \<^verbatim>\<open>^\<close> and \<^verbatim>\<open>$\<close>. A class is a list of
  inclusive ranges; \<^verbatim>\<open>_\<close> is the range from \<^verbatim>\<open>_\<close> to \<^verbatim>\<open>_\<close>. Go's regexp reads runes, and
  no rune outside ASCII lies in a class of ASCII ranges, so matching bytes is matching
  runes here. Without the \<^verbatim>\<open>m\<close> flag \<^verbatim>\<open>$\<close> matches at the end of the text only.
\<close>

type_synonym charClass = "(char \<times> char) list"

definition inClass :: "charClass \<Rightarrow> char \<Rightarrow> bool" where
  "inClass cls c = list_ex (\<lambda>(lo, hi). lo \<le> c \<and> c \<le> hi) cls"

datatype item = One charClass | Star charClass

record regexp =
  beginText :: bool
  items :: "item list"
  endText :: bool

text \<open>Every way to match the items at the start of the text: the rests of the text.\<close>

fun matchItems :: "item list \<Rightarrow> string \<Rightarrow> string list" where
  "matchItems [] s = [s]"
| "matchItems (One cls # is) [] = []"
| "matchItems (One cls # is) (c # cs) = (if inClass cls c then matchItems is cs else [])"
| "matchItems (Star cls # is) [] = matchItems is []"
| "matchItems (Star cls # is) (c # cs) =
     matchItems is (c # cs) @ (if inClass cls c then matchItems (Star cls # is) cs else [])"

fun tails :: "string \<Rightarrow> string list" where
  "tails [] = [[]]"
| "tails (c # cs) = (c # cs) # tails cs"

text \<open>\<^verbatim>\<open>(*Regexp).MatchString\<close>: some match, starting anywhere unless anchored.\<close>

definition MatchString :: "regexp \<Rightarrow> string \<Rightarrow> bool" where
  "MatchString re s =
     list_ex (\<lambda>start. list_ex (\<lambda>rest. if endText re then rest = [] else True)
                        (matchItems (items re) start))
       (if beginText re then [s] else tails s)"

text \<open>\<^verbatim>\<open>regexp.MustCompile("^[_a-zA-Z0-9][-_.a-zA-Z0-9]*$")\<close>\<close>

definition nameRegex :: regexp where
  "nameRegex = \<lparr>beginText = True,
     items = [One [(CHR ''_'', CHR ''_''), (CHR ''a'', CHR ''z''), (CHR ''A'', CHR ''Z''),
                   (CHR ''0'', CHR ''9'')],
              Star [(CHR ''-'', CHR ''-''), (CHR ''_'', CHR ''_''), (CHR ''.'', CHR ''.''),
                    (CHR ''a'', CHR ''z''), (CHR ''A'', CHR ''Z''), (CHR ''0'', CHR ''9'')]],
     endText = True\<rparr>"

definition validateName :: "string \<Rightarrow> bool" where
  "validateName s = MatchString nameRegex s"

text \<open>The specification's words for the same set of names.\<close>

definition alphanumeric :: "char \<Rightarrow> bool" where
  "alphanumeric c =
     (c \<in> set ''abcdefghijklmnopqrstuvwxyzABCDEFGHIJKLMNOPQRSTUVWXYZ0123456789'')"

definition firstNameChar :: "char \<Rightarrow> bool" where
  "firstNameChar c = (alphanumeric c \<or> c = CHR ''_'')"

definition restNameChar :: "char \<Rightarrow> bool" where
  "restNameChar c = (alphanumeric c \<or> c = CHR ''_'' \<or> c = CHR ''.'' \<or> c = CHR ''-'')"

fun isValidName :: "string \<Rightarrow> bool" where
  "isValidName [] = False"
| "isValidName (c # cs) = (firstNameChar c \<and> list_all restNameChar cs)"

subsection \<open>Host names: \<^verbatim>\<open>validateHostname\<close>\<close>

text \<open>
  \<^verbatim>\<open>golang.org/x/net/idna\<close> is not part of the file. A profile is the options the file
  sets; the conversion of the labels (mapping, validation of each label, Punycode) is the
  parameter \<open>conv\<close>, which gets the \<^verbatim>\<open>ValidateLabels\<close> option and yields \<open>None\<close> on an error.
\<close>

record idnaOptions =
  validateLabels :: bool
  verifyDNSLength :: bool

type_synonym labelConversion = "bool \<Rightarrow> string \<Rightarrow> string option"

fun splitLabels :: "string \<Rightarrow> string list" where
  "splitLabels [] = [[]]"
| "splitLabels (c # cs) =
     (if c = CHR ''.'' then [] # splitLabels cs
      else (case splitLabels cs of [] \<Rightarrow> [[c]] | l # ls \<Rightarrow> (c # l) # ls))"

text \<open>
  Modelled from the spec: the check behind \<^verbatim>\<open>idna.VerifyDNSLength\<close>, of which the
  specification says that the overall DNS length limits are enforced. The limits of DNS
  are 63 bytes for a label and 253 bytes for a non-empty name, its final dot not counted.
\<close>

definition dnsLengthOK :: "string \<Rightarrow> bool" where
  "dnsLengthOK a =
     (let n = (if a \<noteq> [] \<and> last a = CHR ''.'' then length a - 1 else length a)
      in 1 \<le> length a \<and> n \<le> 253 \<and> list_all (\<lambda>l. length l \<le> 63) (splitLabels a))"

text \<open>\<^verbatim>\<open>(*Profile).ToASCII\<close>: the error of the Go function is \<open>None\<close>.\<close>

definition idna_ToASCII :: "labelConversion \<Rightarrow> idnaOptions \<Rightarrow> string \<Rightarrow> string option" where
  "idna_ToASCII conv p s =
     (case conv (validateLabels p) s of
        None \<Rightarrow> None
      | Some a \<Rightarrow> if verifyDNSLength p then (if dnsLengthOK a then Some a else None)
                  else Some a)"

definition idnaProfile :: idnaOptions where
  "idnaProfile = \<lparr>validateLabels = True, verifyDNSLength = True\<rparr>"

definition validateHostname :: "labelConversion \<Rightarrow> string \<Rightarrow> bool" where
  "validateHostname conv s =
     (case idna_ToASCII conv idnaProfile s of
        None \<Rightarrow> False
      | Some puny \<Rightarrow> validateName puny)"

text \<open>
  Modelled from the spec: the conversion of a name that is already in ASCII form. On a
  name of lower-case letters and digits, with dots between its labels, the conversion to
  the ASCII-compatible form changes nothing; this instance of the parameter covers those
  names only and refuses every other one.
\<close>

definition lowerAlnumConversion :: labelConversion where
  "lowerAlnumConversion validate s =
     (if list_all (\<lambda>l. l \<noteq> [] \<and>
            list_all (\<lambda>c. c \<in> set ''abcdefghijklmnopqrstuvwxyz0123456789'') l) (splitLabels s)
      then Some s else None)"

subsection \<open>The command line: \<^verbatim>\<open>cli.Context\<close>\<close>

text \<open>
  \<^verbatim>\<open>github.com/urfave/cli/v2\<close> is not part of the file. A context holds the positional
  arguments and the flag set of the command: one entry for each name and each alias of
  each flag the command declares. Reading a name that no flag declares, or a flag of
  another type, yields the zero value of the type read (\<^verbatim>\<open>false\<close>, \<^verbatim>\<open>""\<close>, \<^verbatim>\<open>nil\<close>).
\<close>

datatype flagValue = BoolValue bool | StringValue string | TimestampValue "timestamp option"

datatype flagKind = BoolFlag | StringFlag | TimestampFlag

record flag =
  flagName :: string
  flagAliases :: "string list"
  flagKind :: flagKind

record cliContext =
  flagSet :: "string \<rightharpoonup> flagValue"
  args :: "string list"

definition c_NArg :: "cliContext \<Rightarrow> nat" where
  "c_NArg c = length (args c)"

definition c_Args_Get :: "cliContext \<Rightarrow> nat \<Rightarrow> string" where
  "c_Args_Get c n = (if n < length (args c) then args c ! n else [])"

definition c_Args_First :: "cliContext \<Rightarrow> string" where
  "c_Args_First c = c_Args_Get c 0"

definition c_Bool :: "cliContext \<Rightarrow> string \<Rightarrow> bool" where
  "c_Bool c name = (case flagSet c name of Some (BoolValue b) \<Rightarrow> b | _ \<Rightarrow> False)"

definition c_String :: "cliContext \<Rightarrow> string \<Rightarrow> string" where
  "c_String c name = (case flagSet c name of Some (StringValue s) \<Rightarrow> s | _ \<Rightarrow> [])"

definition c_Timestamp :: "cliContext \<Rightarrow> string \<Rightarrow> timestamp option" where
  "c_Timestamp c name = (case flagSet c name of Some (TimestampValue t) \<Rightarrow> t | _ \<Rightarrow> None)"

definition flagNames :: "flag \<Rightarrow> string list" where
  "flagNames f = flagName f # flagAliases f"

fun defaultValue :: "flagKind \<Rightarrow> flagValue" where
  "defaultValue BoolFlag = BoolValue False"
| "defaultValue StringFlag = StringValue []"
| "defaultValue TimestampFlag = TimestampValue None"

fun hasKind :: "flagKind \<Rightarrow> flagValue \<Rightarrow> bool" where
  "hasKind BoolFlag (BoolValue b) = True"
| "hasKind StringFlag (StringValue s) = True"
| "hasKind TimestampFlag (TimestampValue t) = True"
| "hasKind k v = False"

definition setNames :: "string list \<Rightarrow> flagValue \<Rightarrow> (string \<rightharpoonup> flagValue) \<Rightarrow> (string \<rightharpoonup> flagValue)" where
  "setNames names v m = foldr (\<lambda>n m'. m'(n \<mapsto> v)) names m"

definition newFlagSet :: "flag list \<Rightarrow> (string \<rightharpoonup> flagValue)" where
  "newFlagSet fs = foldr (\<lambda>f m. setNames (flagNames f) (defaultValue (flagKind f)) m) fs Map.empty"

text \<open>
  Parsing the flags of a command line, given as the name typed after the dashes and the
  value parsed from the text that follows: a name that no flag declares is an error, and
  a value is stored under every name of its flag.
\<close>

fun parseFlags :: "flag list \<Rightarrow> (string \<times> flagValue) list \<Rightarrow> (string \<rightharpoonup> flagValue)
    \<Rightarrow> error + (string \<rightharpoonup> flagValue)" where
  "parseFlags fs [] m = Inr m"
| "parseFlags fs ((n, v) # rest) m =
     (case find (\<lambda>f. n \<in> set (flagNames f)) fs of
        None \<Rightarrow> Inl (LibError (''flag provided but not defined: -'' @ n))
      | Some f \<Rightarrow>
          if hasKind (flagKind f) v then parseFlags fs rest (setNames (flagNames f) v m)
          else Inl (LibError (''invalid value for flag -'' @ n)))"

definition newContext :: "flag list \<Rightarrow> (string \<times> flagValue) list \<Rightarrow> string list \<Rightarrow> error + cliContext" where
  "newContext fs given argv =
     (case parseFlags fs given (newFlagSet fs) of
        Inl e \<Rightarrow> Inl e
      | Inr m \<Rightarrow> Inr \<lparr>flagSet = m, args = argv\<rparr>)"

subsection \<open>Routes: \<^verbatim>\<open>dnsRouteFromArg\<close> and \<^verbatim>\<open>lbRouteFromArg\<close>\<close>

text \<open>
  Modelled from the spec: \<^verbatim>\<open>tunnelstore.Route\<close> with its constructors \<^verbatim>\<open>NewDNSRoute\<close> and
  \<^verbatim>\<open>NewLBRoute\<close>, a tagged variant of a DNS route with its host name and a load balancer
  route with the names of the load balancer and of the pool.
\<close>

datatype route = DNSRoute string | LBRoute string string

definition dnsRouteFromArg :: "labelConversion \<Rightarrow> cliContext \<Rightarrow> error + route" where
  "dnsRouteFromArg conv c =
     (let userHostnameIndex = 2; expectedNArgs = 3 in
      if c_NArg c \<noteq> expectedNArgs then Inl (ExpectedNArgs expectedNArgs (c_NArg c))
      else let userHostname = c_Args_Get c userHostnameIndex in
        if userHostname = [] then Inl (UsageError ''The third argument should be the hostname'')
        else if \<not> validateHostname conv userHostname then Inl (InvalidHostname userHostname)
        else Inr (DNSRoute userHostname))"

definition lbRouteFromArg :: "labelConversion \<Rightarrow> cliContext \<Rightarrow> error + route" where
  "lbRouteFromArg conv c =
     (let lbNameIndex = 2; lbPoolIndex = 3; expectedNArgs = 4 in
      if c_NArg c \<noteq> expectedNArgs then Inl (ExpectedNArgs expectedNArgs (c_NArg c))
      else let lbName = c_Args_Get c lbNameIndex in
        if lbName = [] then
          Inl (UsageError ''The third argument should be the load balancer name'')
        else if \<not> validateHostname conv lbName then Inl (InvalidLBName lbName)
        else let lbPool = c_Args_Get c lbPoolIndex in
          if lbPool = [] then Inl (UsageError ''The fourth argument should be the pool name'')
          else if \<not> validateName lbPool then Inl (InvalidPoolName lbPool)
          else Inr (LBRoute lbName lbPool))"

subsection \<open>The connections of a tunnel: \<^verbatim>\<open>fmtConnections\<close>\<close>

text \<open>
  Modelled from the spec: \<^verbatim>\<open>tunnelstore.Connection\<close>, of which the function reads the name
  of the point of presence and whether the connection is pending reconnect.
\<close>

record connection =
  ColoName :: string
  IsPendingReconnect :: bool

text \<open>
  The Go map from names to counts is a list of pairs with distinct keys. Reading a key
  that is absent yields 0 and \<^verbatim>\<open>m[k]++\<close> stores one more than was read. A count is a Go
  \<^verbatim>\<open>uint\<close>; it is at most the length of the slice, which is below the range of \<^verbatim>\<open>uint\<close>, so
  the increment never wraps and the count is a \<open>nat\<close>. The order in which Go ranges over
  the keys of a map is not fixed: here it is the order of insertion, and the keys are
  sorted before they are used.
\<close>

type_synonym countMap = "(string \<times> nat) list"

definition mapGet :: "countMap \<Rightarrow> string \<Rightarrow> nat" where
  "mapGet m k = (case map_of m k of None \<Rightarrow> 0 | Some n \<Rightarrow> n)"

definition mapIncr :: "countMap \<Rightarrow> string \<Rightarrow> countMap" where
  "mapIncr m k = AList.update k (mapGet m k + 1) m"

definition mapKeys :: "countMap \<Rightarrow> string list" where
  "mapKeys m = map fst m"

text \<open>\<^verbatim>\<open>sort.Strings\<close>: ascending in the order of Go strings, which compares bytes.\<close>

definition sort_Strings :: "string list \<Rightarrow> string list" where
  "sort_Strings xs = sort xs"

definition numConnsPerColo :: "connection list \<Rightarrow> bool \<Rightarrow> countMap" where
  "numConnsPerColo connections showRecentlyDisconnected =
     foldl (\<lambda>m connection.
        if \<not> IsPendingReconnect connection \<or> showRecentlyDisconnected
        then mapIncr m (ColoName connection) else m) [] connections"

text \<open>One turn of the counting loop.\<close>

definition countStep :: "bool \<Rightarrow> countMap \<Rightarrow> connection \<Rightarrow> countMap" where
  "countStep b m c = (if \<not> IsPendingReconnect c \<or> b then mapIncr m (ColoName c) else m)"

definition fmtConnections :: "connection list \<Rightarrow> bool \<Rightarrow> string" where
  "fmtConnections connections showRecentlyDisconnected =
     (let m = numConnsPerColo connections showRecentlyDisconnected;
          sortedColos = sort_Strings (mapKeys m);
          output = map (\<lambda>coloName. showNat (mapGet m coloName) @ ''x'' @ coloName) sortedColos
      in strings_Join output '', '')"

text \<open>The specification's words: count, keep the non-zero counts, sort, render, join.\<close>

definition popCount :: "connection list \<Rightarrow> bool \<Rightarrow> string \<Rightarrow> nat" where
  "popCount cs includeRecentlyDisconnected pop =
     length (filter (\<lambda>c. ColoName c = pop \<and>
       (if IsPendingReconnect c then includeRecentlyDisconnected else True)) cs)"

definition summarize :: "connection list \<Rightarrow> bool \<Rightarrow> string" where
  "summarize cs includeRecentlyDisconnected =
     strings_Join
       (map (\<lambda>pop. showNat (popCount cs includeRecentlyDisconnected pop) @ ''x'' @ pop)
         (sorted_list_of_set
           {pop. pop \<in> ColoName ` set cs \<and> popCount cs includeRecentlyDisconnected pop \<noteq> 0}))
       '', ''"

subsection \<open>The state the commands act on\<close>

text \<open>
  The files with their permission bits, the process's umask, the paths at which a file
  cannot be opened for writing, the lines given to the logger, the standard output, and
  the filters with which the directory service was asked for tunnels.
\<close>

datatype predicate = NoDeleted | ByName string | ByExistedAt timestamp | ByTunnelID uuid

type_synonym filter = "predicate list"

record fileEntry =
  contents :: "byte list"
  mode :: "32 word"

record world =
  files :: "string \<rightharpoonup> fileEntry"
  umask :: "32 word"
  writeDenied :: "string \<Rightarrow> bool"
  logged :: "string list"
  stdout :: string
  listed :: "filter list"

definition logger_Infof :: "string \<Rightarrow> world \<Rightarrow> world" where
  "logger_Infof line w = w\<lparr>logged := logged w @ [line]\<rparr>"

definition fmt_Println :: "string \<Rightarrow> world \<Rightarrow> world" where
  "fmt_Println line w = w\<lparr>stdout := stdout w @ line @ [CHR 0x0A]\<rparr>"

subsection \<open>Rendering: \<^verbatim>\<open>renderOutput\<close>\<close>

text \<open>
  The JSON and YAML encoders are parameters: an encoder gets its settings and the value,
  and yields its error and the text it wrote to the standard output.
\<close>

record 'v encoders =
  json_Encode :: "string \<Rightarrow> string \<Rightarrow> 'v \<Rightarrow> error option \<times> string"
  yaml_Encode :: "'v \<Rightarrow> error option \<times> string"

definition renderOutput :: "'v encoders \<Rightarrow> string \<Rightarrow> 'v \<Rightarrow> world \<Rightarrow> error option \<times> world" where
  "renderOutput enc format v w =
     (if format = ''json'' then
        (let (err, text) = json_Encode enc [] ''  '' v in (err, w\<lparr>stdout := stdout w @ text\<rparr>))
      else if format = ''yaml'' then
        (let (err, text) = yaml_Encode enc v in (err, w\<lparr>stdout := stdout w @ text\<rparr>))
      else (Some (UnknownFormat format), w))"

subsection \<open>Secrets: \<^verbatim>\<open>generateTunnelSecret\<close>\<close>

text \<open>
  The random source is a parameter: asked for a number of bytes, it yields the bytes it
  could supply and its error. \<^verbatim>\<open>rand.Read\<close> fills the slice it is given from the front,
  as \<^verbatim>\<open>io.ReadFull\<close> does, and returns no error exactly when it has filled all of it.
\<close>

type_synonym randomSource = "nat \<Rightarrow> byte list \<times> error option"

definition rand_Read :: "randomSource \<Rightarrow> byte list \<Rightarrow> byte list \<times> nat \<times> error option" where
  "rand_Read src b =
     (let (supplied, err) = src (length b);
          got = take (length b) supplied;
          n = length got
      in if n = length b then (got, n, None)
         else (got @ drop n b, n,
               Some (case err of Some e \<Rightarrow> e | None \<Rightarrow> LibError ''unexpected EOF'')))"

definition generateTunnelSecret :: "randomSource \<Rightarrow> byte list \<times> error option" where
  "generateTunnelSecret src =
     (let randomBytes = replicate 32 (0 :: byte);
          (randomBytes', n, err) = rand_Read src randomBytes
      in (randomBytes', err))"

subsection \<open>Credentials: \<^verbatim>\<open>writeTunnelCredentials\<close>\<close>

text \<open>
  Modelled from the spec: \<^verbatim>\<open>pogs.TunnelAuth\<close>, the account tag and the tunnel secret that
  the credential file holds.
\<close>

record tunnelAuth =
  AccountTag :: string
  TunnelSecret :: "byte list"

record credentialLib =
  filepath_Dir :: "string \<Rightarrow> string"
  filepath_Clean :: "string \<Rightarrow> string"
  homedir_Expand :: "string \<Rightarrow> error + string"
  uuid_String :: "uuid \<Rightarrow> string"
  json_Marshal :: "tunnelAuth \<Rightarrow> error + byte list"

text \<open>
  \<^verbatim>\<open>ioutil.WriteFile\<close>: if the file does not exist it is created with the permission bits
  of \<open>perm\<close> that the umask leaves; otherwise it is truncated and keeps its permissions.
\<close>

definition ioutil_WriteFile :: "string \<Rightarrow> byte list \<Rightarrow> 32 word \<Rightarrow> world \<Rightarrow> error option \<times> world" where
  "ioutil_WriteFile filename data perm w =
     (if writeDenied w filename then (Some (LibError (''open '' @ filename)), w)
      else (None, w\<lparr>files := (files w)(filename \<mapsto>
              \<lparr>contents = data,
               mode = (case files w filename of
                         None \<Rightarrow> (perm AND 511) AND NOT (umask w)
                       | Some f \<Rightarrow> mode f)\<rparr>)\<rparr>))"

definition tunnelFilePath :: "credentialLib \<Rightarrow> uuid \<Rightarrow> string \<Rightarrow> error + string" where
  "tunnelFilePath lib tunnelID directory =
     (let fileName = uuid_String lib tunnelID @ ''.json'';
          filePath = filepath_Clean lib (directory @ ''/'' @ fileName)
      in homedir_Expand lib filePath)"

definition writeTunnelCredentials ::
    "credentialLib \<Rightarrow> uuid \<Rightarrow> string \<Rightarrow> string \<Rightarrow> byte list \<Rightarrow> world \<Rightarrow> error option \<times> world" where
  "writeTunnelCredentials lib tunnelID accountID originCertPath tunnelSecret w =
     (let originCertDir = filepath_Dir lib originCertPath in
      case tunnelFilePath lib tunnelID originCertDir of
        Inl err \<Rightarrow> (Some err, w)
      | Inr filePath \<Rightarrow>
          (case json_Marshal lib \<lparr>AccountTag = accountID, TunnelSecret = tunnelSecret\<rparr> of
             Inl err \<Rightarrow> (Some (Wrap err ''Unable to marshal tunnel credentials to JSON''), w)
           | Inr body \<Rightarrow>
               ioutil_WriteFile filePath body 400
                 (logger_Infof ''Keep this file secret. To revoke these credentials, delete the tunnel.''
                   (logger_Infof (''Writing tunnel credentials to '' @ filePath @
                       ''. cloudflared chose this file based on where your origin certificate was found.'')
                     w))))"

text \<open>The specification's permissions: nothing for group and others; read for the owner.\<close>

definition ownerOnly :: "32 word \<Rightarrow> bool" where
  "ownerOnly m = (m AND 63 = 0)"

definition ownerReadOnly :: "32 word \<Rightarrow> bool" where
  "ownerReadOnly m = (m AND 511 = 256)"

subsection \<open>Listing: \<^verbatim>\<open>listCommand\<close>\<close>

text \<open>
  Modelled from the spec: \<^verbatim>\<open>tunnelstore.Filter\<close>, a builder whose operations each add
  one predicate to an ordered set of constraints, and \<^verbatim>\<open>tunnelstore.Tunnel\<close>, the summary
  of a tunnel with its identifier, name, time of creation and connections.
\<close>

definition NewFilter :: filter where
  "NewFilter = []"

definition addPredicate :: "predicate \<Rightarrow> filter \<Rightarrow> filter" where
  "addPredicate p f = (if p \<in> set f then f else f @ [p])"

definition filter_NoDeleted :: "filter \<Rightarrow> filter" where
  "filter_NoDeleted f = addPredicate NoDeleted f"

definition filter_ByName :: "string \<Rightarrow> filter \<Rightarrow> filter" where
  "filter_ByName name f = addPredicate (ByName name) f"

definition filter_ByExistedAt :: "timestamp \<Rightarrow> filter \<Rightarrow> filter" where
  "filter_ByExistedAt existedAt f = addPredicate (ByExistedAt existedAt) f"

definition filter_ByTunnelID :: "uuid \<Rightarrow> filter \<Rightarrow> filter" where
  "filter_ByTunnelID tunnelID f = addPredicate (ByTunnelID tunnelID) f"

record tunnel =
  ID :: uuid
  Name :: string
  CreatedAt :: timestamp
  Connections :: "connection list"

text \<open>
  What the list command calls outside the file: the set-up of the subcommand, the
  directory service, the parser and printer of identifiers, the printer of times, the
  tab writer (from the text written to it to the aligned text) and the encoders.
\<close>

record listLib =
  newSubcommandContext :: "cliContext \<Rightarrow> error option"
  sc_list :: "filter \<Rightarrow> error + tunnel list"
  uuid_Parse :: "string \<Rightarrow> error + uuid"
  uuid_Show :: "uuid \<Rightarrow> string"
  time_Format :: "timestamp \<Rightarrow> string"
  tabwriter_Flush :: "string \<Rightarrow> string"
  outputEncoders :: "tunnel list encoders"

definition fmtAndPrintTunnelList :: "listLib \<Rightarrow> tunnel list \<Rightarrow> bool \<Rightarrow> world \<Rightarrow> world" where
  "fmtAndPrintTunnelList lib tunnels showRecentlyDisconnected w =
     (let tab = [CHR 0x09]; nl = [CHR 0x0A];
          header = ''ID'' @ tab @ ''NAME'' @ tab @ ''CREATED'' @ tab @ ''CONNECTIONS'' @ tab @ nl;
          formattedStr = (\<lambda>t. uuid_Show lib (ID t) @ tab @ Name t @ tab @
                               time_Format lib (CreatedAt t) @ tab @
                               fmtConnections (Connections t) showRecentlyDisconnected @ tab)
      in w\<lparr>stdout := stdout w @
            tabwriter_Flush lib (header @ concat (map (\<lambda>t. formattedStr t @ nl) tunnels))\<rparr>)"

text \<open>The flags of the file that \<^verbatim>\<open>buildListCommand\<close> gives to the list command.\<close>

definition showDeletedFlag :: flag where
  "showDeletedFlag = \<lparr>flagName = ''show-deleted'', flagAliases = [''d''], flagKind = BoolFlag\<rparr>"

definition listNameFlag :: flag where
  "listNameFlag = \<lparr>flagName = ''name'', flagAliases = [''n''], flagKind = StringFlag\<rparr>"

definition listExistedAtFlag :: flag where
  "listExistedAtFlag = \<lparr>flagName = ''when'', flagAliases = [''w''], flagKind = TimestampFlag\<rparr>"

definition listIDFlag :: flag where
  "listIDFlag = \<lparr>flagName = ''id'', flagAliases = [''i''], flagKind = StringFlag\<rparr>"

definition showRecentlyDisconnected :: flag where
  "showRecentlyDisconnected =
     \<lparr>flagName = ''show-recently-disconnected'', flagAliases = [''rd''], flagKind = BoolFlag\<rparr>"

definition outputFormatFlag :: flag where
  "outputFormatFlag = \<lparr>flagName = ''output'', flagAliases = [''o''], flagKind = StringFlag\<rparr>"

definition listFlags :: "flag list" where
  "listFlags = [outputFormatFlag, showDeletedFlag, listNameFlag, listExistedAtFlag, listIDFlag,
                showRecentlyDisconnected]"

definition listCommand :: "listLib \<Rightarrow> cliContext \<Rightarrow> world \<Rightarrow> error option \<times> world" where
  "listCommand lib c w =
     (case newSubcommandContext lib c of
        Some err \<Rightarrow> (Some err, w)
      | None \<Rightarrow>
          (let filter0 = NewFilter;
               filter1 = (if \<not> c_Bool c ''show-deleted'' then filter_NoDeleted filter0 else filter0);
               filter2 = (let name = c_String c ''name'' in
                          if name \<noteq> [] then filter_ByName name filter1 else filter1);
               filter3 = (case c_Timestamp c ''time'' of
                            Some existedAt \<Rightarrow> filter_ByExistedAt existedAt filter2
                          | None \<Rightarrow> filter2);
               id = c_String c ''id'';
               filter4 = (if id \<noteq> [] then
                            (case uuid_Parse lib id of
                               Inl err \<Rightarrow> Inl (Wrap err (id @ '' is not a valid tunnel ID''))
                             | Inr tunnelID \<Rightarrow> Inr (filter_ByTunnelID tunnelID filter3))
                          else Inr filter3)
           in case filter4 of
                Inl err \<Rightarrow> (Some err, w)
              | Inr filter' \<Rightarrow>
                  (let w1 = w\<lparr>listed := listed w @ [filter']\<rparr> in
                   case sc_list lib filter' of
                     Inl err \<Rightarrow> (Some err, w1)
                   | Inr tunnels \<Rightarrow>
                       (let outputFormat = c_String c (flagName outputFormatFlag) in
                        if outputFormat \<noteq> [] then
                          renderOutput (outputEncoders lib) outputFormat tunnels w1
                        else if length tunnels > 0 then
                          (None, fmtAndPrintTunnelList lib tunnels
                                   (c_Bool c ''show-recently-disconnected'') w1)
                        else
                          (None, fmt_Println
                             (''You have no tunnels, use '' @ [CHR 0x27] @
                              ''cloudflared tunnel create'' @ [CHR 0x27] @
                              '' to define a new tunnel'') w1)))))"

subsection \<open>Instances of the parameters\<close>

text \<open>
  Concrete values of the parameters, at which the theorems below are evaluated: a state
  with no files and umask 002; encoders that write a fixed text; a directory service with
  no tunnels; and a library for paths that are absolute and clean and hold no
  home-directory shorthand, where the directory of a path is what precedes its last
  slash, with the canonical text of an identifier and a stand-in for the marshaller.
\<close>

definition emptyWorld :: world where
  "emptyWorld = \<lparr>files = Map.empty, umask = 2, writeDenied = (\<lambda>p. False), logged = [],
                  stdout = [], listed = []\<rparr>"

definition constEncoders :: "'v encoders" where
  "constEncoders = \<lparr>json_Encode = (\<lambda>prefix indent v. (None, ''{'' @ [CHR 0x0A] @ prefix @ indent @ ''}'')),
                     yaml_Encode = (\<lambda>v. (None, ''{}''))\<rparr>"

definition emptyDirectory :: listLib where
  "emptyDirectory = \<lparr>newSubcommandContext = (\<lambda>c. None),
                      sc_list = (\<lambda>f. Inr []),
                      uuid_Parse = (\<lambda>s. Inl (LibError ''invalid UUID'')),
                      uuid_Show = (\<lambda>u. []),
                      time_Format = (\<lambda>t. []),
                      tabwriter_Flush = (\<lambda>s. s),
                      outputEncoders = constEncoders\<rparr>"

definition hexByte :: "byte \<Rightarrow> string" where
  "hexByte b = [''0123456789abcdef'' ! (unat b div 16), ''0123456789abcdef'' ! (unat b mod 16)]"

definition uuidText :: "uuid \<Rightarrow> string" where
  "uuidText u = concat (map hexByte (take 4 u)) @ ''-'' @ concat (map hexByte (take 2 (drop 4 u)))
     @ ''-'' @ concat (map hexByte (take 2 (drop 6 u))) @ ''-''
     @ concat (map hexByte (take 2 (drop 8 u))) @ ''-'' @ concat (map hexByte (drop 10 u))"

definition plainPaths :: credentialLib where
  "plainPaths = \<lparr>filepath_Dir = (\<lambda>p. rev (tl (dropWhile (\<lambda>c. c \<noteq> CHR ''/'') (rev p)))),
                  filepath_Clean = (\<lambda>p. p),
                  homedir_Expand = (\<lambda>p. Inr p),
                  uuid_String = uuidText,
                  json_Marshal = (\<lambda>a. Inr (TunnelSecret a))\<rparr>"

section \<open>Properties\<close>

subsection \<open>Names\<close>

lemma alphanumeric_ranges:
  "alphanumeric c \<longleftrightarrow> (CHR ''a'' \<le> c \<and> c \<le> CHR ''z'') \<or> (CHR ''A'' \<le> c \<and> c \<le> CHR ''Z'')
     \<or> (CHR ''0'' \<le> c \<and> c \<le> CHR ''9'')"
  by (cases c) (simp add: alphanumeric_def less_eq_char_def; fastforce)

lemma inClass_first:
  "inClass [(CHR ''_'', CHR ''_''), (CHR ''a'', CHR ''z''), (CHR ''A'', CHR ''Z''), (CHR ''0'', CHR ''9'')] c
     \<longleftrightarrow> firstNameChar c"
  unfolding inClass_def firstNameChar_def alphanumeric_ranges by auto

lemma inClass_rest:
  "inClass [(CHR ''-'', CHR ''-''), (CHR ''_'', CHR ''_''), (CHR ''.'', CHR ''.''),
            (CHR ''a'', CHR ''z''), (CHR ''A'', CHR ''Z''), (CHR ''0'', CHR ''9'')] c
     \<longleftrightarrow> restNameChar c"
  unfolding inClass_def restNameChar_def alphanumeric_ranges by auto

lemma matchItems_Star_end:
  "[] \<in> set (matchItems [Star cls] s) \<longleftrightarrow> list_all (inClass cls) s"
  by (induction s) auto

lemma validateName_isValidName: "validateName s = isValidName s"
proof (cases s)
  case Nil
  then show ?thesis by (simp add: validateName_def MatchString_def nameRegex_def)
next
  case (Cons c cs)
  have "list_ex (\<lambda>rest. rest = []) xs \<longleftrightarrow> [] \<in> set xs" for xs :: "string list"
    by (auto simp: list_ex_iff)
  then show ?thesis using Cons
    by (simp add: validateName_def MatchString_def nameRegex_def inClass_first
        matchItems_Star_end inClass_rest cong: list.pred_cong)
qed

text \<open>
  C7: \<^verbatim>\<open>validateName\<close> holds of a string exactly when the string matches
  \<^verbatim>\<open>^[_a-zA-Z0-9][-_.a-zA-Z0-9]*$\<close>: it is not empty, its first character is alphanumeric or
  an underscore, and every other character is alphanumeric, an underscore, a dot or a
  hyphen. So \<^verbatim>\<open>abc-123.def\<close> is valid, and \<^verbatim>\<open>-bad\<close> and the empty string are not.
\<close>

theorem validateName_regex:
  "validateName s = isValidName s \<and> validateName ''abc-123.def'' \<and> \<not> validateName ''-bad''
     \<and> \<not> validateName ''''"
  unfolding validateName_isValidName
  by (simp add: firstNameChar_def restNameChar_def alphanumeric_def)

theorem validateName_regex_witness:
  "validateName ''_tunnel.1'' \<and> isValidName ''_tunnel.1'' \<and> \<not> validateName ''a b''"
proof -
  have "isValidName ''_tunnel.1''" "\<not> isValidName ''a b''"
    by (simp_all add: firstNameChar_def restNameChar_def alphanumeric_def)
  then show ?thesis
    using validateName_regex [of "''_tunnel.1''"] validateName_regex [of "''a b''"] by simp
qed

subsection \<open>Host names\<close>

lemma validateHostname_iff:
  "validateHostname conv s \<longleftrightarrow>
     (\<exists>puny. idna_ToASCII conv idnaProfile s = Some puny \<and> validateName puny)"
  by (simp add: validateHostname_def split: option.splits)

lemma idna_ToASCII_strict:
  "idna_ToASCII conv idnaProfile s = Some a \<longleftrightarrow> conv True s = Some a \<and> dnsLengthOK a"
  by (auto simp: idna_ToASCII_def idnaProfile_def split: option.splits)

lemma splitLabels_no_dot:
  "CHR ''.'' \<notin> set s \<Longrightarrow> splitLabels s = [s]"
  by (induction s) auto

lemma long_label_conv:
  "lowerAlnumConversion v (replicate 64 (CHR ''a'')) = Some (replicate 64 (CHR ''a''))"
  by (simp add: lowerAlnumConversion_def splitLabels_no_dot list_all_iff)

lemma long_label_length: "\<not> dnsLengthOK (replicate 64 (CHR ''a''))"
  by (simp add: dnsLengthOK_def splitLabels_no_dot Let_def)

lemma long_label_name: "validateName (replicate 64 (CHR ''a''))"
  by code_simp

lemma long_label_hostname: "\<not> validateHostname lowerAlnumConversion (replicate 64 (CHR ''a''))"
  by (simp add: validateHostname_def idna_ToASCII_def idnaProfile_def long_label_conv long_label_length)

text \<open>
  C6: \<^verbatim>\<open>validateHostname\<close> holds of a string exactly when its conversion to the
  ASCII-compatible form under the strict profile (labels validated, DNS length verified)
  succeeds and the converted form satisfies \<^verbatim>\<open>validateName\<close>. An error of the conversion
  makes it false, and so does a converted form that exceeds the DNS length limits.
\<close>

theorem validateHostname_idna:
  "(validateHostname conv s \<longleftrightarrow>
      (\<exists>puny. idna_ToASCII conv idnaProfile s = Some puny \<and> validateName puny))
   \<and> validateLabels idnaProfile \<and> verifyDNSLength idnaProfile
   \<and> (idna_ToASCII conv idnaProfile s = None \<longrightarrow> \<not> validateHostname conv s)
   \<and> (conv True s = None \<longrightarrow> idna_ToASCII conv idnaProfile s = None)
   \<and> (conv True s = Some a \<and> \<not> dnsLengthOK a \<longrightarrow>
        idna_ToASCII conv idnaProfile s = None \<and> \<not> validateHostname conv s)"
  by (auto simp: validateHostname_iff idna_ToASCII_strict)
    (auto simp: idna_ToASCII_def idnaProfile_def)

theorem validateHostname_idna_witness:
  "lowerAlnumConversion True (replicate 64 (CHR ''a'')) = Some (replicate 64 (CHR ''a''))
   \<and> \<not> dnsLengthOK (replicate 64 (CHR ''a''))
   \<and> \<not> validateHostname lowerAlnumConversion (replicate 64 (CHR ''a''))
   \<and> validateHostname lowerAlnumConversion ''example.com''"
proof -
  have "\<not> validateHostname lowerAlnumConversion (replicate 64 (CHR ''a''))"
    using validateHostname_idna [of lowerAlnumConversion "replicate 64 (CHR ''a'')" "replicate 64 (CHR ''a'')"]
      long_label_conv long_label_length by blast
  moreover have "idna_ToASCII lowerAlnumConversion idnaProfile ''example.com'' = Some ''example.com''"
    by (simp add: idna_ToASCII_def idnaProfile_def lowerAlnumConversion_def dnsLengthOK_def)
  moreover have "validateName ''example.com''" by code_simp
  ultimately show ?thesis
    using validateHostname_idna [of lowerAlnumConversion "''example.com''"]
      long_label_conv long_label_length by blast
qed

subsection \<open>Routes\<close>

lemma args3: "args c = [a, b, h] \<Longrightarrow> c_NArg c = 3 \<and> c_Args_Get c 2 = h"
  by (simp add: c_NArg_def c_Args_Get_def)

lemma args4: "args c = [a, b, l, p] \<Longrightarrow> c_NArg c = 4 \<and> c_Args_Get c 2 = l \<and> c_Args_Get c 3 = p"
  by (simp add: c_NArg_def c_Args_Get_def)

text \<open>
  C8, as stated, fails: with three arguments of which the host name is empty,
  \<^verbatim>\<open>dnsRouteFromArg\<close> returns the usage error about its third argument, not the error of
  an invalid host name.
\<close>

theorem dnsRouteFromArg_empty_hostname_counterexample:
  "dnsRouteFromArg lowerAlnumConversion \<lparr>flagSet = Map.empty, args = [''dns'', ''tunnel'', '''']\<rparr>
     = Inl (UsageError ''The third argument should be the hostname'')
   \<and> dnsRouteFromArg lowerAlnumConversion \<lparr>flagSet = Map.empty, args = [''dns'', ''tunnel'', '''']\<rparr>
     \<noteq> Inl (InvalidHostname '''')"
  by (simp add: dnsRouteFromArg_def c_NArg_def c_Args_Get_def InvalidHostname_def)

text \<open>
  C8, amended: with three arguments, \<^verbatim>\<open>dnsRouteFromArg\<close> returns the DNS route of the host
  name exactly when the host name is not empty and \<^verbatim>\<open>validateHostname\<close> holds of it, and it
  returns no other route. A host name that is not empty and not valid fails with the
  error of an invalid host name; the empty host name fails with a usage error.
\<close>

theorem dnsRouteFromArg_result:
  assumes "args c = [routeType, tunnel, hostname]"
  shows "(dnsRouteFromArg conv c = Inr (DNSRoute hostname) \<longleftrightarrow>
            hostname \<noteq> [] \<and> validateHostname conv hostname)
       \<and> ((\<exists>r. dnsRouteFromArg conv c = Inr r) \<longleftrightarrow> dnsRouteFromArg conv c = Inr (DNSRoute hostname))
       \<and> (hostname \<noteq> [] \<and> \<not> validateHostname conv hostname \<longrightarrow>
            dnsRouteFromArg conv c = Inl (InvalidHostname hostname))
       \<and> (hostname = [] \<longrightarrow>
            dnsRouteFromArg conv c = Inl (UsageError ''The third argument should be the hostname''))"
  using args3 [OF assms] by (auto simp: dnsRouteFromArg_def)

theorem dnsRouteFromArg_result_witness:
  "dnsRouteFromArg lowerAlnumConversion \<lparr>flagSet = Map.empty, args = [''dns'', ''tunnel'', ''example.com'']\<rparr>
     = Inr (DNSRoute ''example.com'')
   \<and> dnsRouteFromArg lowerAlnumConversion
        \<lparr>flagSet = Map.empty, args = [''dns'', ''tunnel'', replicate 64 (CHR ''a'')]\<rparr>
     = Inl (InvalidHostname (replicate 64 (CHR ''a'')))"
proof -
  have "idna_ToASCII lowerAlnumConversion idnaProfile ''example.com'' = Some ''example.com''"
    by (simp add: idna_ToASCII_def idnaProfile_def lowerAlnumConversion_def dnsLengthOK_def)
  moreover have "validateName ''example.com''" by code_simp
  ultimately have v: "validateHostname lowerAlnumConversion ''example.com''"
    by (simp add: validateHostname_def)
  show ?thesis
    using dnsRouteFromArg_result [of "\<lparr>flagSet = Map.empty, args = [''dns'', ''tunnel'', ''example.com'']\<rparr>"
        "''dns''" "''tunnel''" "''example.com''" lowerAlnumConversion]
      dnsRouteFromArg_result [of "\<lparr>flagSet = Map.empty, args = [''dns'', ''tunnel'', replicate 64 (CHR ''a'')]\<rparr>"
        "''dns''" "''tunnel''" "replicate 64 (CHR ''a'')" lowerAlnumConversion]
      v long_label_hostname
    by simp
qed

text \<open>
  C3, as stated, fails: a name of 64 letters satisfies \<^verbatim>\<open>validateName\<close>, and with it as
  the name of the load balancer \<^verbatim>\<open>lbRouteFromArg\<close> fails, because the name is checked as
  a host name and a label of a host name has at most 63 bytes. The check of the pool is
  not reached then, whatever the name of the pool.
\<close>

theorem lbRouteFromArg_name_counterexample:
  "validateName (replicate 64 (CHR ''a'')) \<and> replicate 64 (CHR ''a'') \<noteq> []
   \<and> validateName ''p''
   \<and> lbRouteFromArg lowerAlnumConversion
        \<lparr>flagSet = Map.empty, args = [''lb'', ''tunnel'', replicate 64 (CHR ''a''), ''p'']\<rparr>
      = Inl (InvalidLBName (replicate 64 (CHR ''a'')))
   \<and> \<not> validateName ''-p''
   \<and> lbRouteFromArg lowerAlnumConversion
        \<lparr>flagSet = Map.empty, args = [''lb'', ''tunnel'', replicate 64 (CHR ''a''), ''-p'']\<rparr>
      \<noteq> Inl (InvalidPoolName ''-p'')"
proof -
  have "validateName ''p''" "\<not> validateName ''-p''" by code_simp+
  then show ?thesis
    using long_label_name long_label_hostname
    by (simp add: lbRouteFromArg_def c_NArg_def c_Args_Get_def InvalidLBName_def InvalidPoolName_def)
qed

text \<open>
  C3, amended: with four arguments, \<^verbatim>\<open>lbRouteFromArg\<close> succeeds exactly when the name of
  the load balancer is not empty and satisfies \<^verbatim>\<open>validateHostname\<close> and the name of the
  pool is not empty and satisfies \<^verbatim>\<open>validateName\<close>; it then returns the route of the two
  names. A load balancer name that is not empty and fails \<^verbatim>\<open>validateHostname\<close> yields the
  error of an invalid load balancer name; once the load balancer name has passed, a pool
  name that is not empty and fails \<^verbatim>\<open>validateName\<close> yields the error of an invalid pool
  name.
\<close>

theorem lbRouteFromArg_result:
  assumes "args c = [routeType, tunnel, lbName, lbPool]"
  shows "((\<exists>r. lbRouteFromArg conv c = Inr r) \<longleftrightarrow>
            lbName \<noteq> [] \<and> validateHostname conv lbName \<and> lbPool \<noteq> [] \<and> validateName lbPool)
       \<and> ((\<exists>r. lbRouteFromArg conv c = Inr r) \<longleftrightarrow> lbRouteFromArg conv c = Inr (LBRoute lbName lbPool))
       \<and> (lbName \<noteq> [] \<and> \<not> validateHostname conv lbName \<longrightarrow>
            lbRouteFromArg conv c = Inl (InvalidLBName lbName))
       \<and> (lbName \<noteq> [] \<and> validateHostname conv lbName \<and> lbPool \<noteq> [] \<and> \<not> validateName lbPool \<longrightarrow>
            lbRouteFromArg conv c = Inl (InvalidPoolName lbPool))"
  using args4 [OF assms] by (auto simp: lbRouteFromArg_def)

theorem lbRouteFromArg_result_witness:
  "lbRouteFromArg lowerAlnumConversion
     \<lparr>flagSet = Map.empty, args = [''lb'', ''tunnel'', ''lb.example.com'', ''pool_1'']\<rparr>
     = Inr (LBRoute ''lb.example.com'' ''pool_1'')
   \<and> lbRouteFromArg lowerAlnumConversion
     \<lparr>flagSet = Map.empty, args = [''lb'', ''tunnel'', ''lb.example.com'', ''pool one'']\<rparr>
     = Inl (InvalidPoolName ''pool one'')
   \<and> lbRouteFromArg lowerAlnumConversion
     \<lparr>flagSet = Map.empty, args = [''lb'', ''tunnel'', replicate 64 (CHR ''a''), ''p'']\<rparr>
     = Inl (InvalidLBName (replicate 64 (CHR ''a'')))"
proof -
  have "idna_ToASCII lowerAlnumConversion idnaProfile ''lb.example.com'' = Some ''lb.example.com''"
    by (simp add: idna_ToASCII_def idnaProfile_def lowerAlnumConversion_def dnsLengthOK_def)
  moreover have "validateName ''lb.example.com''" by code_simp
  ultimately have v: "validateHostname lowerAlnumConversion ''lb.example.com''"
    by (simp add: validateHostname_def)
  have p: "validateName ''pool_1''" "\<not> validateName ''pool one''" by code_simp+
  show ?thesis
    using lbRouteFromArg_result [of "\<lparr>flagSet = Map.empty, args = [''lb'', ''tunnel'', ''lb.example.com'', ''pool_1'']\<rparr>"
        "''lb''" "''tunnel''" "''lb.example.com''" "''pool_1''" lowerAlnumConversion]
      lbRouteFromArg_result [of "\<lparr>flagSet = Map.empty, args = [''lb'', ''tunnel'', ''lb.example.com'', ''pool one'']\<rparr>"
        "''lb''" "''tunnel''" "''lb.example.com''" "''pool one''" lowerAlnumConversion]
      lbRouteFromArg_result [of "\<lparr>flagSet = Map.empty, args = [''lb'', ''tunnel'', replicate 64 (CHR ''a''), ''p'']\<rparr>"
        "''lb''" "''tunnel''" "replicate 64 (CHR ''a'')" "''p''" lowerAlnumConversion]
      v p long_label_hostname
    by auto
qed

subsection \<open>Connections\<close>

lemma mapGet_mapIncr:
  "mapGet (mapIncr m k) p = (if p = k then mapGet m k + 1 else mapGet m p)"
  by (simp add: mapGet_def mapIncr_def update_conv')

lemma keys_mapIncr: "set (mapKeys (mapIncr m k)) = insert k (set (mapKeys m))"
  using dom_update [of k "mapGet m k + 1" m] by (simp add: mapKeys_def mapIncr_def)

lemma distinct_mapIncr: "distinct (mapKeys m) \<Longrightarrow> distinct (mapKeys (mapIncr m k))"
  by (simp add: mapKeys_def mapIncr_def distinct_update)

lemma popCount_Nil: "popCount [] b p = 0"
  by (simp add: popCount_def)

lemma popCount_Cons:
  "popCount (c # cs) b p =
     (if ColoName c = p \<and> (\<not> IsPendingReconnect c \<or> b) then 1 else 0) + popCount cs b p"
  by (simp add: popCount_def)

lemma foldl_mapGet:
  "mapGet (foldl (countStep b) m cs) p = mapGet m p + popCount cs b p"
  by (induction cs arbitrary: m) (auto simp: popCount_Nil popCount_Cons countStep_def mapGet_mapIncr)

lemma popCount_pos:
  "0 < popCount cs b p \<Longrightarrow> p \<in> ColoName ` set cs"
  by (induction cs) (auto simp: popCount_Nil popCount_Cons split: if_splits)

lemma foldl_keys:
  "set (mapKeys (foldl (countStep b) m cs)) =
     set (mapKeys m) \<union> {p. p \<in> ColoName ` set cs \<and> popCount cs b p \<noteq> 0}"
  by (induction cs arbitrary: m)
    (auto simp: popCount_Nil popCount_Cons countStep_def keys_mapIncr dest: popCount_pos)

lemma foldl_distinct:
  "distinct (mapKeys m) \<Longrightarrow> distinct (mapKeys (foldl (countStep b) m cs))"
  by (induction cs arbitrary: m) (auto simp: countStep_def distinct_mapIncr)

lemma numConnsPerColo_foldl: "numConnsPerColo cs b = foldl (countStep b) [] cs"
  by (simp add: numConnsPerColo_def countStep_def [abs_def])

lemma numConnsPerColo_get: "mapGet (numConnsPerColo cs b) p = popCount cs b p"
  by (simp add: numConnsPerColo_foldl foldl_mapGet) (simp add: mapGet_def)

lemma numConnsPerColo_keys:
  "set (mapKeys (numConnsPerColo cs b)) = {p. p \<in> ColoName ` set cs \<and> popCount cs b p \<noteq> 0}"
  by (simp add: numConnsPerColo_foldl foldl_keys) (simp add: mapKeys_def)

lemma numConnsPerColo_distinct: "distinct (mapKeys (numConnsPerColo cs b))"
  by (rule foldl_distinct [of "[]", folded numConnsPerColo_foldl]) (simp add: mapKeys_def)

text \<open>Sorting makes the order in which the keys of the map are visited irrelevant.\<close>

lemma sort_Strings_keys:
  "distinct ks \<Longrightarrow> sort_Strings ks = sorted_list_of_set (set ks)"
  by (simp add: sort_Strings_def sorted_list_of_set_sort_remdups distinct_remdups_id)

lemma sort_Strings_any_order:
  "distinct ks \<Longrightarrow> distinct ks' \<Longrightarrow> set ks = set ks' \<Longrightarrow> sort_Strings ks = sort_Strings ks'"
  by (simp add: sort_Strings_keys)

lemma fmtConnections_summarize: "fmtConnections cs b = summarize cs b"
  by (simp add: fmtConnections_def summarize_def Let_def sort_Strings_keys
      numConnsPerColo_distinct numConnsPerColo_keys numConnsPerColo_get)

lemma length_filter_mset: "length (filter P xs) = size (filter_mset P (mset xs))"
  by (simp only: mset_filter [symmetric] size_mset)

lemma popCount_mset:
  assumes "mset cs = mset cs'"
  shows "popCount cs b p = popCount cs' b p"
  by (simp only: popCount_def length_filter_mset assms)

lemma summarize_mset:
  assumes "mset cs = mset cs'"
  shows "summarize cs b = summarize cs' b"
proof -
  have s: "set cs = set cs'"
    using assms by (rule mset_eq_setD)
  have p: "popCount cs b = popCount cs' b"
    by (rule ext) (rule popCount_mset [OF assms])
  show ?thesis
    by (simp only: summarize_def s p)
qed

lemma summarize_none: "\<forall>p. popCount cs b p = 0 \<Longrightarrow> summarize cs b = []"
  by (simp add: summarize_def)

lemma popCount_excluded: "list_all IsPendingReconnect cs \<Longrightarrow> popCount cs False p = 0"
  by (induction cs) (auto simp: popCount_def)

text \<open>
  C4: \<^verbatim>\<open>fmtConnections\<close> is the summary of the specification: it counts, for each point of
  presence, the connections that are not pending reconnect (all of them when recently
  disconnected ones are shown), lists the points of presence with a non-zero count in
  ascending order, renders each as count, \<^verbatim>\<open>x\<close>, name, and joins them with a comma and a
  space. No connections, or only excluded ones, give the empty string. The example of
  the specification gives \<^verbatim>\<open>2xLAX\<close>, and \<^verbatim>\<open>1xJFK, 2xLAX\<close> with the flag set.
\<close>

theorem fmtConnections_summary:
  "fmtConnections cs b = summarize cs b
   \<and> fmtConnections [] b = []
   \<and> (list_all IsPendingReconnect cs \<longrightarrow> fmtConnections cs False = [])
   \<and> fmtConnections [\<lparr>ColoName = ''LAX'', IsPendingReconnect = False\<rparr>,
                      \<lparr>ColoName = ''LAX'', IsPendingReconnect = False\<rparr>,
                      \<lparr>ColoName = ''JFK'', IsPendingReconnect = True\<rparr>] False = ''2xLAX''
   \<and> fmtConnections [\<lparr>ColoName = ''LAX'', IsPendingReconnect = False\<rparr>,
                      \<lparr>ColoName = ''LAX'', IsPendingReconnect = False\<rparr>,
                      \<lparr>ColoName = ''JFK'', IsPendingReconnect = True\<rparr>] True = ''1xJFK, 2xLAX''"
proof (intro conjI)
  show "fmtConnections cs b = summarize cs b"
    by (rule fmtConnections_summarize)
  show "fmtConnections [] b = []"
    by (simp add: fmtConnections_summarize summarize_none popCount_Nil)
  show "list_all IsPendingReconnect cs \<longrightarrow> fmtConnections cs False = []"
    by (simp add: fmtConnections_summarize summarize_none popCount_excluded)
  show "fmtConnections [\<lparr>ColoName = ''LAX'', IsPendingReconnect = False\<rparr>,
                        \<lparr>ColoName = ''LAX'', IsPendingReconnect = False\<rparr>,
                        \<lparr>ColoName = ''JFK'', IsPendingReconnect = True\<rparr>] False = ''2xLAX''"
    by code_simp
  show "fmtConnections [\<lparr>ColoName = ''LAX'', IsPendingReconnect = False\<rparr>,
                        \<lparr>ColoName = ''LAX'', IsPendingReconnect = False\<rparr>,
                        \<lparr>ColoName = ''JFK'', IsPendingReconnect = True\<rparr>] True = ''1xJFK, 2xLAX''"
    by code_simp
qed

theorem fmtConnections_summary_witness:
  "list_all IsPendingReconnect [\<lparr>ColoName = ''JFK'', IsPendingReconnect = True\<rparr>]
   \<and> fmtConnections [\<lparr>ColoName = ''JFK'', IsPendingReconnect = True\<rparr>] False = []
   \<and> summarize [\<lparr>ColoName = ''JFK'', IsPendingReconnect = True\<rparr>] False = []"
proof -
  let ?cs = "[\<lparr>ColoName = ''JFK'', IsPendingReconnect = True\<rparr>]"
  have l: "list_all IsPendingReconnect ?cs"
    by simp
  have e: "fmtConnections ?cs False = []"
    using fmtConnections_summary [of ?cs False] l by blast
  have s: "fmtConnections ?cs False = summarize ?cs False"
    using fmtConnections_summary [of ?cs False] by blast
  show ?thesis
    by (intro conjI l e s [unfolded e, symmetric])
qed

text \<open>
  C10: \<^verbatim>\<open>fmtConnections\<close> gives the same string on a list of connections and on any
  permutation of it, whatever the flag: the result depends on the multiset of the
  connections only.
\<close>

theorem fmtConnections_permutation:
  "mset cs = mset cs' \<Longrightarrow> fmtConnections cs b = fmtConnections cs' b"
  unfolding fmtConnections_summarize by (rule summarize_mset)

theorem fmtConnections_permutation_witness:
  "mset [\<lparr>ColoName = ''LAX'', IsPendingReconnect = False\<rparr>,
         \<lparr>ColoName = ''JFK'', IsPendingReconnect = True\<rparr>]
     = mset [\<lparr>ColoName = ''JFK'', IsPendingReconnect = True\<rparr>,
             \<lparr>ColoName = ''LAX'', IsPendingReconnect = False\<rparr>]
   \<and> fmtConnections [\<lparr>ColoName = ''LAX'', IsPendingReconnect = False\<rparr>,
                      \<lparr>ColoName = ''JFK'', IsPendingReconnect = True\<rparr>] True
     = fmtConnections [\<lparr>ColoName = ''JFK'', IsPendingReconnect = True\<rparr>,
                       \<lparr>ColoName = ''LAX'', IsPendingReconnect = False\<rparr>] True"
proof -
  have m: "mset [\<lparr>ColoName = ''LAX'', IsPendingReconnect = False\<rparr>,
                 \<lparr>ColoName = ''JFK'', IsPendingReconnect = True\<rparr>]
     = mset [\<lparr>ColoName = ''JFK'', IsPendingReconnect = True\<rparr>,
             \<lparr>ColoName = ''LAX'', IsPendingReconnect = False\<rparr>]"
    by (simp add: add_mset_commute)
  show ?thesis
    using m fmtConnections_permutation [OF m, of True] by simp
qed

subsection \<open>Rendering\<close>

text \<open>
  C5: \<^verbatim>\<open>renderOutput\<close> succeeds only when the format is exactly \<^verbatim>\<open>json\<close> or \<^verbatim>\<open>yaml\<close>;
  every other format, such as \<^verbatim>\<open>xml\<close> or \<^verbatim>\<open>JSON\<close>, fails with the error of an unknown
  format and writes nothing; and for \<^verbatim>\<open>json\<close> the encoder is run with an empty prefix and
  an indentation of two spaces.
\<close>

theorem renderOutput_formats:
  "(fst (renderOutput enc format v w) = None \<longrightarrow> format = ''json'' \<or> format = ''yaml'')
   \<and> (format \<noteq> ''json'' \<and> format \<noteq> ''yaml'' \<longrightarrow>
         renderOutput enc format v w = (Some (UnknownFormat format), w))
   \<and> renderOutput enc ''xml'' v w = (Some (UnknownFormat ''xml''), w)
   \<and> renderOutput enc ''JSON'' v w = (Some (UnknownFormat ''JSON''), w)
   \<and> renderOutput enc ''json'' v w =
         (fst (json_Encode enc [] ''  '' v), w\<lparr>stdout := stdout w @ snd (json_Encode enc [] ''  '' v)\<rparr>)
   \<and> renderOutput enc ''yaml'' v w =
         (fst (yaml_Encode enc v), w\<lparr>stdout := stdout w @ snd (yaml_Encode enc v)\<rparr>)"
  by (simp add: renderOutput_def split_beta)

theorem renderOutput_formats_witness:
  "fst (renderOutput constEncoders ''json'' () emptyWorld) = None
   \<and> stdout (snd (renderOutput constEncoders ''json'' () emptyWorld)) = ''{'' @ [CHR 0x0A] @ ''  }''
   \<and> ''Json'' \<noteq> ''json'' \<and> ''Json'' \<noteq> ''yaml''
   \<and> renderOutput constEncoders ''Json'' () emptyWorld = (Some (UnknownFormat ''Json''), emptyWorld)"
  using renderOutput_formats [of constEncoders "''json''" "()" emptyWorld]
    renderOutput_formats [of constEncoders "''Json''" "()" emptyWorld]
  by (simp add: constEncoders_def emptyWorld_def)

subsection \<open>Secrets\<close>

lemma rand_Read_length: "length (fst (rand_Read src b)) = length b"
  by (auto simp: rand_Read_def Let_def split_beta)

lemma rand_Read_error:
  "snd (snd (rand_Read src b)) = None \<longleftrightarrow> length b \<le> length (fst (src (length b)))"
  by (auto simp: rand_Read_def Let_def split_beta)

lemma rand_Read_count:
  "fst (snd (rand_Read src b)) = length b \<longleftrightarrow> snd (snd (rand_Read src b)) = None"
  by (auto simp: rand_Read_def Let_def split_beta)

text \<open>
  C9: \<^verbatim>\<open>generateTunnelSecret\<close> always returns 32 bytes, and it returns an error exactly
  when the random source supplies fewer than the 32 bytes asked of it; without an error
  the bytes returned are those the source supplied.
\<close>

theorem generateTunnelSecret_32:
  "length (fst (generateTunnelSecret src)) = 32
   \<and> (snd (generateTunnelSecret src) \<noteq> None \<longleftrightarrow> length (fst (src 32)) < 32)
   \<and> (snd (generateTunnelSecret src) = None \<longrightarrow>
        fst (generateTunnelSecret src) = take 32 (fst (src 32)))"
proof -
  have g: "generateTunnelSecret src =
      (fst (rand_Read src (replicate 32 0)), snd (snd (rand_Read src (replicate 32 0))))"
    by (simp add: generateTunnelSecret_def split_beta Let_def)
  have "length (fst (generateTunnelSecret src)) = 32"
    by (simp add: g rand_Read_length)
  moreover have "snd (generateTunnelSecret src) \<noteq> None \<longleftrightarrow> length (fst (src 32)) < 32"
    by (simp add: g rand_Read_error not_le)
  moreover have "snd (generateTunnelSecret src) = None \<longrightarrow>
        fst (generateTunnelSecret src) = take 32 (fst (src 32))"
    by (auto simp: g rand_Read_def Let_def split_beta)
  ultimately show ?thesis by blast
qed

theorem generateTunnelSecret_32_witness:
  "snd (generateTunnelSecret (\<lambda>n. (replicate n 7, None))) = None
   \<and> fst (generateTunnelSecret (\<lambda>n. (replicate n 7, None))) = replicate 32 7
   \<and> snd (generateTunnelSecret (\<lambda>n. ([], Some (LibError ''no entropy'')))) = Some (LibError ''no entropy'')
   \<and> length (fst (generateTunnelSecret (\<lambda>n. ([], Some (LibError ''no entropy''))))) = 32"
proof -
  have "snd (generateTunnelSecret (\<lambda>n. ([], Some (LibError ''no entropy'')))) = Some (LibError ''no entropy'')"
    by (simp add: generateTunnelSecret_def rand_Read_def)
  then show ?thesis
    using generateTunnelSecret_32 [of "\<lambda>n. (replicate n 7, None)"]
      generateTunnelSecret_32 [of "\<lambda>n. ([], Some (LibError ''no entropy''))"]
    by simp
qed

subsection \<open>Credentials\<close>

lemma groupWrite_left: "\<not> bit u 4 \<Longrightarrow> bit ((400 AND 511) AND NOT (u::32 word)) 4"
  by (simp add: bit_simps)

lemma ownerWrite_left: "\<not> bit u 7 \<Longrightarrow> bit ((400 AND 511) AND NOT (u::32 word)) 7"
  by (simp add: bit_simps)

lemma groupWrite_not_ownerOnly: "bit (m::32 word) 4 \<Longrightarrow> \<not> ownerOnly m"
proof
  assume b: "bit m 4" and "ownerOnly m"
  then have "\<not> bit (m AND 63) 4"
    by (simp add: ownerOnly_def)
  then show False
    using b by (simp add: bit_simps)
qed

lemma ownerWrite_not_readOnly: "bit (m::32 word) 7 \<Longrightarrow> \<not> ownerReadOnly m"
proof
  assume b: "bit m 7" and "ownerReadOnly m"
  then have "\<not> bit (m AND 511) 7"
    by (simp add: ownerReadOnly_def bit_simps)
  then show False
    using b by (simp add: bit_simps)
qed

lemma ioutil_WriteFile_new:
  assumes "files w filename = None" and "ioutil_WriteFile filename data perm w = (None, w')"
  shows "files w' filename = Some \<lparr>contents = data, mode = (perm AND 511) AND NOT (umask w)\<rparr>"
  using assms by (auto simp: ioutil_WriteFile_def split: if_splits)

lemma logger_Infof_files [simp]:
  "files (logger_Infof l w) = files w" "umask (logger_Infof l w) = umask w"
  "writeDenied (logger_Infof l w) = writeDenied w"
  by (simp_all add: logger_Infof_def)

text \<open>
  C1 asks for a credential file that its owner can read and nobody else can touch, mode
  0400. The code gives \<^verbatim>\<open>ioutil.WriteFile\<close> the decimal number 400, which is octal 0620:
  when \<^verbatim>\<open>writeTunnelCredentials\<close> succeeds and has created the file, the file has the bits
  of 0620 that the umask leaves. Unless the umask takes the group's write bit away, the
  group can write the file; unless it takes the owner's write bit away, the file is not
  read-only.
\<close>

theorem writeTunnelCredentials_mode:
  assumes "tunnelFilePath lib tunnelID (filepath_Dir lib originCertPath) = Inr filePath"
    and "files w filePath = None"
    and "writeTunnelCredentials lib tunnelID accountID originCertPath tunnelSecret w = (None, w')"
  shows "map_option mode (files w' filePath) = Some (400 AND NOT (umask w))
       \<and> (\<not> bit (umask w) 4 \<longrightarrow> \<not> ownerOnly (400 AND NOT (umask w)))
       \<and> (\<not> bit (umask w) 7 \<longrightarrow> \<not> ownerReadOnly (400 AND NOT (umask w)))"
proof -
  have c: "(400 AND 511 :: 32 word) = 400"
    by simp
  obtain body where
    "ioutil_WriteFile filePath body 400
       (logger_Infof ''Keep this file secret. To revoke these credentials, delete the tunnel.''
         (logger_Infof (''Writing tunnel credentials to '' @ filePath @
            ''. cloudflared chose this file based on where your origin certificate was found.'') w))
     = (None, w')"
    using assms(1,3) by (auto simp: writeTunnelCredentials_def split: sum.splits)
  from ioutil_WriteFile_new [OF _ this] assms(2)
  have "files w' filePath = Some \<lparr>contents = body, mode = (400 AND 511) AND NOT (umask w)\<rparr>"
    by simp
  then have "map_option mode (files w' filePath) = Some (400 AND NOT (umask w))"
    by (simp add: c)
  then show ?thesis
    using groupWrite_left [of "umask w"] ownerWrite_left [of "umask w"]
      groupWrite_not_ownerOnly ownerWrite_not_readOnly
    by (auto simp: c)
qed

theorem writeTunnelCredentials_mode_witness:
  "tunnelFilePath plainPaths (replicate 16 0) (filepath_Dir plainPaths ''/etc/cloudflared/cert.pem'')
     = Inr ''/etc/cloudflared/00000000-0000-0000-0000-000000000000.json''
   \<and> files emptyWorld ''/etc/cloudflared/00000000-0000-0000-0000-000000000000.json'' = None
   \<and> fst (writeTunnelCredentials plainPaths (replicate 16 0) ''account''
             ''/etc/cloudflared/cert.pem'' (replicate 32 1) emptyWorld) = None
   \<and> map_option mode
        (files (snd (writeTunnelCredentials plainPaths (replicate 16 0) ''account''
                       ''/etc/cloudflared/cert.pem'' (replicate 32 1) emptyWorld))
           ''/etc/cloudflared/00000000-0000-0000-0000-000000000000.json'') = Some 400
   \<and> \<not> ownerOnly 400 \<and> \<not> ownerReadOnly 400 \<and> (400 :: 32 word) AND 63 = 16"
proof -
  let ?p = "''/etc/cloudflared/00000000-0000-0000-0000-000000000000.json''"
  let ?r = "writeTunnelCredentials plainPaths (replicate 16 0) ''account''
              ''/etc/cloudflared/cert.pem'' (replicate 32 1) emptyWorld"
  have p: "tunnelFilePath plainPaths (replicate 16 0)
             (filepath_Dir plainPaths ''/etc/cloudflared/cert.pem'') = Inr ?p"
    by code_simp
  have f: "files emptyWorld ?p = None"
    by (simp add: emptyWorld_def)
  have r: "fst ?r = None"
    using p by (simp add: writeTunnelCredentials_def plainPaths_def ioutil_WriteFile_def
        emptyWorld_def logger_Infof_def)
  have u: "umask emptyWorld = 2" by (simp add: emptyWorld_def)
  have m: "(400 AND NOT 2 :: 32 word) = 400" by simp
  have b: "\<not> bit (2 :: 32 word) 4" "\<not> bit (2 :: 32 word) 7" by (simp_all add: bit_simps)
  have "?r = (None, snd ?r)"
    using r by (simp add: prod_eq_iff)
  from writeTunnelCredentials_mode [OF p f this] show ?thesis
    using p f r b by (simp add: u m)
qed

subsection \<open>Listing\<close>

lemma setNames_apply: "setNames names v m x = (if x \<in> set names then Some v else m x)"
  by (induction names) (auto simp: setNames_def)

lemma dom_setNames: "dom (setNames names v m) = set names \<union> dom m"
  by (auto simp: dom_def setNames_apply)

lemma dom_newFlagSet: "dom (newFlagSet fs) = (\<Union>f\<in>set fs. set (flagNames f))"
  by (induction fs) (auto simp: newFlagSet_def dom_setNames)

lemma dom_parseFlags:
  "parseFlags fs given m = Inr m' \<Longrightarrow> dom m' \<subseteq> dom m \<union> (\<Union>f\<in>set fs. set (flagNames f))"
proof (induction given arbitrary: m)
  case Nil
  then show ?case by auto
next
  case (Cons nv given)
  obtain n v where nv: "nv = (n, v)" by (cases nv)
  from Cons.prems obtain f where
    f: "find (\<lambda>f. n \<in> set (flagNames f)) fs = Some f"
    and r: "parseFlags fs given (setNames (flagNames f) v m) = Inr m'"
    by (auto simp: nv split: option.splits if_splits)
  from f have "f \<in> set fs"
    by (auto simp: find_Some_iff)
  with Cons.IH [OF r] show ?case
    by (auto simp: dom_setNames)
qed

lemma listFlags_names:
  "(\<Union>f\<in>set listFlags. set (flagNames f)) =
     {''output'', ''o'', ''show-deleted'', ''d'', ''name'', ''n'', ''when'', ''w'', ''id'', ''i'',
      ''show-recently-disconnected'', ''rd''}"
  by (auto simp: listFlags_def flagNames_def outputFormatFlag_def showDeletedFlag_def
      listNameFlag_def listExistedAtFlag_def listIDFlag_def showRecentlyDisconnected_def)

lemma newContext_time:
  assumes "newContext listFlags given argv = Inr c"
  shows "c_Timestamp c ''time'' = None"
proof -
  from assms obtain m where m: "parseFlags listFlags given (newFlagSet listFlags) = Inr m"
    and c: "c = \<lparr>flagSet = m, args = argv\<rparr>"
    by (auto simp: newContext_def split: sum.splits)
  have "dom m \<subseteq> (\<Union>f\<in>set listFlags. set (flagNames f))"
    using dom_parseFlags [OF m] by (simp add: dom_newFlagSet)
  then have "''time'' \<notin> dom m"
    unfolding listFlags_names by auto
  then show ?thesis
    by (simp add: c c_Timestamp_def domIff)
qed

lemma listed_renderOutput: "listed (snd (renderOutput enc format v w)) = listed w"
  by (simp add: renderOutput_def split_beta)

lemma listed_fmtAndPrintTunnelList:
  "listed (fmtAndPrintTunnelList lib tunnels b w) = listed w"
  by (simp add: fmtAndPrintTunnelList_def Let_def)

lemma listed_fmt_Println: "listed (fmt_Println line w) = listed w"
  by (simp add: fmt_Println_def)

text \<open>
  C2 asks that a time given with \<^verbatim>\<open>--when\<close> reaches the filter as an existed-at predicate.
  The code reads the flag under the name \<^verbatim>\<open>time\<close>, which no flag of the list command
  declares: in every context parsed from a command line of the list command that read
  yields nothing, and no filter that \<^verbatim>\<open>listCommand\<close> passes to the directory service holds
  an existed-at predicate.
\<close>

theorem listCommand_existedAt_never_set:
  assumes "newContext listFlags given argv = Inr c"
  shows "c_Timestamp c ''time'' = None
       \<and> (\<forall>f\<in>set (listed (snd (listCommand lib c w))).
             f \<in> set (listed w) \<or> (\<forall>t. ByExistedAt t \<notin> set f))"
proof -
  have t: "c_Timestamp c ''time'' = None"
    using assms by (rule newContext_time)
  have "f \<in> set (listed w) \<or> (\<forall>t. ByExistedAt t \<notin> set f)"
    if "f \<in> set (listed (snd (listCommand lib c w)))" for f
    using that
    by (auto simp: listCommand_def t Let_def NewFilter_def filter_NoDeleted_def filter_ByName_def
        filter_ByTunnelID_def addPredicate_def listed_renderOutput listed_fmtAndPrintTunnelList
        listed_fmt_Println split: option.splits sum.splits if_splits)
  with t show ?thesis by blast
qed

theorem listCommand_existedAt_never_set_witness:
  "(case newContext listFlags [(''when'', TimestampValue (Some 1577836800))] [] of
      Inl e \<Rightarrow> False
    | Inr c \<Rightarrow> c_Timestamp c ''when'' = Some 1577836800
             \<and> c_Timestamp c ''time'' = None
             \<and> listed (snd (listCommand emptyDirectory c emptyWorld)) = [[NoDeleted]])"
proof -
  define m where "m = setNames (flagNames listExistedAtFlag) (TimestampValue (Some 1577836800))
                        (newFlagSet listFlags)"
  define c where "c = \<lparr>flagSet = m, args = []\<rparr>"
  have n: "newContext listFlags [(''when'', TimestampValue (Some 1577836800))] [] = Inr c"
    by (simp add: newContext_def c_def m_def listFlags_def flagNames_def outputFormatFlag_def
        showDeletedFlag_def listNameFlag_def listExistedAtFlag_def)
  have t: "c_Timestamp c ''time'' = None"
    using listCommand_existedAt_never_set [OF n] by blast
  have v: "c_Timestamp c ''when'' = Some 1577836800" "\<not> c_Bool c ''show-deleted''"
    "c_String c ''name'' = []" "c_String c ''id'' = []" "c_String c ''output'' = []"
    by (simp_all add: c_def m_def c_Timestamp_def c_Bool_def c_String_def setNames_def
        newFlagSet_def listFlags_def flagNames_def outputFormatFlag_def showDeletedFlag_def
        listNameFlag_def listExistedAtFlag_def listIDFlag_def showRecentlyDisconnected_def)
  have "listed (snd (listCommand emptyDirectory c emptyWorld)) = [[NoDeleted]]"
    by (simp add: listCommand_def t v emptyDirectory_def emptyWorld_def NewFilter_def
        filter_NoDeleted_def addPredicate_def outputFormatFlag_def fmt_Println_def)
  with t v show ?thesis
    by (simp add: n)
qed

end
